theory Spec2Isabelle
  imports Complex_Main
begin

section \<open>JavaScript numbers\<close>

text \<open>
  A TypeScript \<open>number\<close> is modelled by the type \<open>num\<close>: the special values
  \<open>NaN\<close>, \<open>-Infinity\<close> and \<open>+Infinity\<close>, and the finite values \<open>Fin r\<close> with
  \<open>r\<close> a real number. The arithmetic and the comparisons follow IEEE-754 on the
  special values (a comparison with \<open>NaN\<close> is false, \<open>Infinity - Infinity\<close> is \<open>NaN\<close>,
  and so on). On finite values the arithmetic is exact: rounding to 53 bits, overflow
  to an infinity and the sign of zero are not part of the model. Every statement
  below about finite coordinates is therefore a statement about the source evaluated
  in exact arithmetic.
\<close>

datatype num = NaN | NegInf | Fin real | PosInf

instantiation num :: "{plus,minus,uminus,times,inverse,ord}"
begin

fun plus_num :: "num \<Rightarrow> num \<Rightarrow> num" where
  "plus_num NaN _ = NaN"
| "plus_num _ NaN = NaN"
| "plus_num PosInf NegInf = NaN"
| "plus_num NegInf PosInf = NaN"
| "plus_num PosInf _ = PosInf"
| "plus_num _ PosInf = PosInf"
| "plus_num NegInf _ = NegInf"
| "plus_num _ NegInf = NegInf"
| "plus_num (Fin a) (Fin b) = Fin (a + b)"

fun uminus_num :: "num \<Rightarrow> num" where
  "uminus_num NaN = NaN"
| "uminus_num PosInf = NegInf"
| "uminus_num NegInf = PosInf"
| "uminus_num (Fin a) = Fin (- a)"

fun minus_num :: "num \<Rightarrow> num \<Rightarrow> num" where
  "minus_num NaN _ = NaN"
| "minus_num _ NaN = NaN"
| "minus_num PosInf PosInf = NaN"
| "minus_num NegInf NegInf = NaN"
| "minus_num PosInf _ = PosInf"
| "minus_num _ NegInf = PosInf"
| "minus_num NegInf _ = NegInf"
| "minus_num _ PosInf = NegInf"
| "minus_num (Fin a) (Fin b) = Fin (a - b)"

fun times_num :: "num \<Rightarrow> num \<Rightarrow> num" where
  "times_num NaN _ = NaN"
| "times_num _ NaN = NaN"
| "times_num (Fin a) (Fin b) = Fin (a * b)"
| "times_num (Fin a) PosInf = (if a = 0 then NaN else if 0 < a then PosInf else NegInf)"
| "times_num (Fin a) NegInf = (if a = 0 then NaN else if 0 < a then NegInf else PosInf)"
| "times_num PosInf (Fin b) = (if b = 0 then NaN else if 0 < b then PosInf else NegInf)"
| "times_num NegInf (Fin b) = (if b = 0 then NaN else if 0 < b then NegInf else PosInf)"
| "times_num PosInf PosInf = PosInf"
| "times_num NegInf NegInf = PosInf"
| "times_num PosInf NegInf = NegInf"
| "times_num NegInf PosInf = NegInf"

text \<open>
  Division by a finite zero gives an infinity whose sign IEEE-754 takes from the sign
  of the zero; the model has one zero and takes it as positive. No division of the
  source that a theorem below depends on has a zero divisor.
\<close>

fun divide_num :: "num \<Rightarrow> num \<Rightarrow> num" where
  "divide_num NaN _ = NaN"
| "divide_num _ NaN = NaN"
| "divide_num (Fin a) (Fin b) =
     (if b = 0 then (if a = 0 then NaN else if 0 < a then PosInf else NegInf)
      else Fin (a / b))"
| "divide_num (Fin a) _ = Fin 0"
| "divide_num PosInf (Fin b) = (if 0 \<le> b then PosInf else NegInf)"
| "divide_num NegInf (Fin b) = (if 0 \<le> b then NegInf else PosInf)"
| "divide_num _ _ = NaN"

fun inverse_num :: "num \<Rightarrow> num" where
  "inverse_num NaN = NaN"
| "inverse_num (Fin a) = (if a = 0 then PosInf else Fin (inverse a))"
| "inverse_num _ = Fin 0"

fun less_num :: "num \<Rightarrow> num \<Rightarrow> bool" where
  "less_num NaN _ = False"
| "less_num _ NaN = False"
| "less_num (Fin a) (Fin b) = (a < b)"
| "less_num NegInf NegInf = False"
| "less_num NegInf _ = True"
| "less_num _ NegInf = False"
| "less_num PosInf _ = False"
| "less_num _ PosInf = True"

fun less_eq_num :: "num \<Rightarrow> num \<Rightarrow> bool" where
  "less_eq_num NaN _ = False"
| "less_eq_num _ NaN = False"
| "less_eq_num (Fin a) (Fin b) = (a \<le> b)"
| "less_eq_num NegInf _ = True"
| "less_eq_num _ PosInf = True"
| "less_eq_num _ _ = False"

instance ..

end

text \<open>The global functions \<open>isNaN\<close> and \<open>isFinite\<close>, and strict equality \<open>===\<close> on numbers.\<close>

fun isNaN :: "num \<Rightarrow> bool" where
  "isNaN NaN = True"
| "isNaN _ = False"

fun isFinite :: "num \<Rightarrow> bool" where
  "isFinite (Fin _) = True"
| "isFinite _ = False"




fun Math_sqrt :: "num \<Rightarrow> num" where
  "Math_sqrt (Fin a) = (if a < 0 then NaN else Fin (sqrt a))"
| "Math_sqrt PosInf = PosInf"
| "Math_sqrt _ = NaN"

fun Math_sin :: "num \<Rightarrow> num" where
  "Math_sin (Fin a) = Fin (sin a)"
| "Math_sin _ = NaN"

fun Math_cos :: "num \<Rightarrow> num" where
  "Math_cos (Fin a) = Fin (cos a)"
| "Math_cos _ = NaN"

definition Math_PI :: num where
  "Math_PI = Fin pi"

fun Math_atan2 :: "num \<Rightarrow> num \<Rightarrow> num" where
  "Math_atan2 NaN _ = NaN"
| "Math_atan2 _ NaN = NaN"
| "Math_atan2 (Fin y) (Fin x) =
     Fin (if 0 < x then arctan (y / x)
          else if x < 0 then (if 0 \<le> y then arctan (y / x) + pi else arctan (y / x) - pi)
          else if 0 < y then pi / 2 else if y < 0 then - pi / 2 else 0)"
| "Math_atan2 (Fin y) PosInf = Fin 0"
| "Math_atan2 (Fin y) NegInf = Fin (if 0 \<le> y then pi else - pi)"
| "Math_atan2 PosInf (Fin x) = Fin (pi / 2)"
| "Math_atan2 NegInf (Fin x) = Fin (- pi / 2)"
| "Math_atan2 PosInf PosInf = Fin (pi / 4)"
| "Math_atan2 PosInf NegInf = Fin (3 * pi / 4)"
| "Math_atan2 NegInf PosInf = Fin (- pi / 4)"
| "Math_atan2 NegInf NegInf = Fin (- 3 * pi / 4)"

section \<open>Data model (types.ts)\<close>

record coordinate =
  lat :: num
  lng :: num

datatype zoneType = manual_polygon | geocoded_area | circular_risk

record floodZone =
  zone_id :: string
  name :: string
  polygon :: "coordinate list"
  center :: coordinate
  radius :: num
  zone_type :: zoneType

text \<open>
  The coordinate invariant of the data model: both components are finite numbers.
  It is the test \<open>fetchOSRMRoute\<close> applies to its input, and \<open>isValidCoordinate\<close>
  of the map display.
\<close>

definition isValidCoordinate :: "coordinate \<Rightarrow> bool" where
  "isValidCoordinate c =
     (\<not> isNaN (lat c) \<and> \<not> isNaN (lng c) \<and> isFinite (lat c) \<and> isFinite (lng c))"

section \<open>Geometry (utils/geo.ts)\<close>

subsection \<open>isPointInPolygon\<close>




subsection \<open>doesRouteIntersectFlood\<close>




subsection \<open>calculateRouteHazardScore\<close>





subsection \<open>haversineDistance\<close>

definition R :: num where
  "R = Fin 6371000"

definition haversineDistance :: "coordinate \<Rightarrow> coordinate \<Rightarrow> num" where
  "haversineDistance c1 c2 =
     (let dLat = (lat c2 - lat c1) * (Math_PI / Fin 180);
          dLon = (lng c2 - lng c1) * (Math_PI / Fin 180);
          lat1 = lat c1 * (Math_PI / Fin 180);
          lat2 = lat c2 * (Math_PI / Fin 180);
          a = Math_sin (dLat / Fin 2) * Math_sin (dLat / Fin 2) +
              Math_sin (dLon / Fin 2) * Math_sin (dLon / Fin 2) * Math_cos lat1 * Math_cos lat2;
          c = Fin 2 * Math_atan2 (Math_sqrt a) (Math_sqrt (Fin 1 - a))
      in R * c)"

subsection \<open>LocationSmoother\<close>

text \<open>
  The fields \<open>lastLat\<close> and \<open>lastLng\<close> are \<open>null\<close> (\<open>None\<close>) until the first call.
  The private field \<open>alpha\<close> is set to 0.3 at construction and never assigned again.
  \<open>smooth\<close> returns the coordinate and the object's state after the call.
\<close>

record locationSmoother =
  lastLat :: "num option"
  lastLng :: "num option"
  alpha :: num

definition newLocationSmoother :: locationSmoother where
  "newLocationSmoother = \<lparr>lastLat = None, lastLng = None, alpha = Fin 0.3\<rparr>"

definition smooth :: "locationSmoother \<Rightarrow> num \<Rightarrow> num \<Rightarrow> coordinate \<times> locationSmoother" where
  "smooth this rawLat rawLng =
     (case (lastLat this, lastLng this) of
        (Some prevLat, Some prevLng) \<Rightarrow>
          (let smoothedLat = prevLat + alpha this * (rawLat - prevLat);
               smoothedLng = prevLng + alpha this * (rawLng - prevLng)
           in (\<lparr>lat = smoothedLat, lng = smoothedLng\<rparr>,
               this\<lparr>lastLat := Some smoothedLat, lastLng := Some smoothedLng\<rparr>))
      | _ \<Rightarrow>
          (\<lparr>lat = rawLat, lng = rawLng\<rparr>,
           this\<lparr>lastLat := Some rawLat, lastLng := Some rawLng\<rparr>))"

subsection \<open>Detour candidates\<close>





section \<open>Route provider client and route selection (services/mapService.ts)\<close>

record routeStep =
  step_distance :: num
  step_duration :: num
  step_name :: string
  maneuver_type :: string

record routeData =
  coordinates :: "coordinate list"
  totalDistance :: num
  totalDuration :: num
  bbox :: "num list option"
  steps :: "routeStep list"

subsection \<open>The provider's answers\<close>

text \<open>
  The JSON document of a routing answer, as far as \<open>transformRouteData\<close> reads it.
  A field the code dereferences and that may be absent is an option: reading a
  property of \<open>undefined\<close> raises a \<open>TypeError\<close>. A position of the geometry is the
  pair \<open>[lng, lat]\<close>.
\<close>

record osrmRoute =
  geometry :: "(num \<times> num) list option"
  distance :: num
  duration :: num
  route_bbox :: "num list option"
  legs :: "routeStep list list option"

record osrmData =
  routes :: "osrmRoute list option"

text \<open>
  What one \<open>fetch\<close> of a URL does, seen from \<open>performFetch\<close>: the 5-second timer
  aborts the request, the request fails, or a response arrives with a status and a
  body. The body is not JSON (\<open>response.json()\<close> rejects), or it is JSON: \<open>null\<close>
  (\<open>None\<close>) or a document. The passing of time is not modelled: the timeout is one
  of the outcomes.
\<close>

datatype body = NotJson | Json "osrmData option"

datatype httpResult = Aborted | NetworkFailure | HttpResponse nat body

datatype jsError = AbortError | FetchFailed | StatusError nat | SyntaxError | TypeError

datatype endpoint = OSRM_BASE_URL | OSRM_BACKUP_URL

text \<open>
  A request is the endpoint and the coordinates written into the URL. The network
  is a function from requests to outcomes.
\<close>

type_synonym request = "endpoint \<times> coordinate list"
type_synonym network = "endpoint \<Rightarrow> coordinate list \<Rightarrow> httpResult"

definition response_ok :: "nat \<Rightarrow> bool" where
  "response_ok status = (200 \<le> status \<and> status \<le> 299)"

fun performFetch :: "httpResult \<Rightarrow> jsError + osrmData option" where
  "performFetch Aborted = Inl AbortError"
| "performFetch NetworkFailure = Inl FetchFailed"
| "performFetch (HttpResponse status b) =
     (if \<not> response_ok status then Inl (StatusError status)
      else case b of NotJson \<Rightarrow> Inl SyntaxError | Json data \<Rightarrow> Inr data)"

text \<open>
  The failures of an endpoint as the specification lists them: timeout, network
  error, non-success status, malformed body.
\<close>

fun endpointFails :: "httpResult \<Rightarrow> bool" where
  "endpointFails Aborted = True"
| "endpointFails NetworkFailure = True"
| "endpointFails (HttpResponse status b) = (\<not> response_ok status \<or> b = NotJson)"

subsection \<open>fetchOSRMRoute\<close>

text \<open>
  The result is the value the promise settles with (\<open>Inl\<close>: rejected with an error,
  \<open>Inr None\<close>: \<open>null\<close>) and the requests issued, in order.
\<close>

definition fetchOSRMRoute ::
  "network \<Rightarrow> coordinate list \<Rightarrow> (jsError + osrmData option) \<times> request list" where
  "fetchOSRMRoute net coords =
     (let validCoords = filter isValidCoordinate coords
      in if length validCoords < 2 then (Inr None, [])
         else
           (case performFetch (net OSRM_BASE_URL validCoords) of
              Inr data \<Rightarrow> (Inr data, [(OSRM_BASE_URL, validCoords)])
            | Inl primaryError \<Rightarrow>
                (case performFetch (net OSRM_BACKUP_URL validCoords) of
                   Inr data \<Rightarrow>
                     (Inr data, [(OSRM_BASE_URL, validCoords), (OSRM_BACKUP_URL, validCoords)])
                 | Inl backupError \<Rightarrow>
                     (Inr None, [(OSRM_BASE_URL, validCoords), (OSRM_BACKUP_URL, validCoords)]))))"

subsection \<open>transformRouteData\<close>


subsection \<open>getCombinedHazardZone\<close>



subsection \<open>The selector\<close>

record routeEvaluation =
  route :: routeData
  hazardScore :: nat
  detourType :: string

text \<open>The comparator handed to \<open>validEvaluations.sort\<close>.\<close>

definition compareEvaluations :: "routeEvaluation \<Rightarrow> routeEvaluation \<Rightarrow> num" where
  "compareEvaluations a b =
     (if hazardScore a \<noteq> hazardScore b
      then Fin (real (hazardScore a)) - Fin (real (hazardScore b))
      else totalDistance (route a) - totalDistance (route b))"

text \<open>
  \<open>Array.prototype.sort\<close> with a comparator. For a consistent comparator ECMAScript
  fixes the result: the elements in ascending order of the comparator, elements that
  compare equal in their original order (the sort is stable). The insertion sort
  below computes that list; a comparator result that is not positive (zero, negative
  or \<open>NaN\<close>) leaves the earlier element first.
\<close>

fun insertSorted :: "('a \<Rightarrow> 'a \<Rightarrow> num) \<Rightarrow> 'a \<Rightarrow> 'a list \<Rightarrow> 'a list" where
  "insertSorted cmp x [] = [x]"
| "insertSorted cmp x (y # ys) =
     (if cmp x y > Fin 0 then y # insertSorted cmp x ys else x # y # ys)"

fun arraySort :: "('a \<Rightarrow> 'a \<Rightarrow> num) \<Rightarrow> 'a list \<Rightarrow> 'a list" where
  "arraySort cmp [] = []"
| "arraySort cmp (x # xs) = insertSorted cmp x (arraySort cmp xs)"

subsection \<open>fetchRoute\<close>





text \<open>The selector: sort the evaluations and take the route of the first.\<close>

definition selectRoute :: "routeEvaluation list \<Rightarrow> routeData" where
  "selectRoute validEvaluations = route (arraySort compareEvaluations validEvaluations ! 0)"



section \<open>The application state and its handlers (App.tsx)\<close>

text \<open>
  The component state that the handlers below read or write. Of \<open>NavigationStatus\<close>
  the fields \<open>isNavigating\<close>, \<open>alert\<close> and \<open>rerouting\<close> are kept; the others (speed,
  heading, distance remaining, ETA, step index) are display values that no handler
  below reads. A handler runs to its end, or to its first \<open>await\<close>, without
  interleaving, and its state updates are taken as applied when it ends.

  \<open>inFlight\<close> is not a field of the source: it counts the calls of \<open>calculateRoute\<close>
  that have passed their first \<open>await\<close> and have not settled yet.
\<close>

datatype tool = ToolNone | ToolDestination | ToolHazard

record navigationStatus =
  isNavigating :: bool
  alert :: "string option"
  rerouting :: bool

record appState =
  userLocation :: coordinate
  pathTrail :: "coordinate list"
  smoother :: locationSmoother
  activeTool :: tool
  tempHazardPoints :: "coordinate list"
  destination :: "coordinate option"
  activeRoute :: "routeData option"
  isBlocked :: bool
  floodZones :: "floodZone list"
  isCalculating :: bool
  isSimulating :: bool
  navStatus :: navigationStatus
  simulationIndex :: nat
  inFlight :: nat

definition DEFAULT_LOCATION :: coordinate where
  "DEFAULT_LOCATION = \<lparr>lat = Fin 16.3067, lng = Fin 80.4365\<rparr>"

definition initialState :: appState where
  "initialState =
     \<lparr>userLocation = DEFAULT_LOCATION,
      pathTrail = [],
      smoother = newLocationSmoother,
      activeTool = ToolNone,
      tempHazardPoints = [],
      destination = None,
      activeRoute = None,
      isBlocked = False,
      floodZones = [],
      isCalculating = False,
      isSimulating = False,
      navStatus = \<lparr>isNavigating = False, alert = None, rerouting = False\<rparr>,
      simulationIndex = 0,
      inFlight = 0\<rparr>"

subsection \<open>The breadcrumb trail\<close>

text \<open>\<open>prev.slice(-49)\<close>: the last 49 elements, all of them when there are fewer.\<close>

definition slice_last :: "nat \<Rightarrow> 'a list \<Rightarrow> 'a list" where
  "slice_last n xs = drop (length xs - n) xs"

text \<open>The updater \<open>handleSuccess\<close> hands to \<open>setPathTrail\<close>.\<close>

definition trailAfterFix :: "coordinate list \<Rightarrow> coordinate \<Rightarrow> coordinate list" where
  "trailAfterFix prev newLoc =
     (if prev = [] \<or> haversineDistance (last prev) newLoc > Fin 5
      then slice_last 49 prev @ [newLoc]
      else prev)"

text \<open>The updater the simulation's timer hands to \<open>setPathTrail\<close>.\<close>

definition trailAfterTick :: "coordinate list \<Rightarrow> coordinate \<Rightarrow> coordinate list" where
  "trailAfterTick prev currentPos = slice_last 49 prev @ [currentPos]"

subsection \<open>handleSuccess: a fix of the position feed\<close>

text \<open>
  The handler up to \<open>setPathTrail\<close>. The heading and speed it derives and the
  navigation status it then writes are display values; the arrival test that follows
  is not modelled.
\<close>

definition handleSuccess :: "num \<Rightarrow> num \<Rightarrow> appState \<Rightarrow> appState" where
  "handleSuccess rawLat rawLng s =
     (if isSimulating s then s
      else if isNaN rawLat \<or> isNaN rawLng then s
      else
        (case smooth (smoother s) rawLat rawLng of
           (smoothed, smoother') \<Rightarrow>
             (let newLoc = \<lparr>lat = lat smoothed, lng = lng smoothed\<rparr>
              in s\<lparr>smoother := smoother',
                   userLocation := newLoc,
                   pathTrail := trailAfterFix (pathTrail s) newLoc\<rparr>)))"

subsection \<open>handleMapClick and handleSelectDestination\<close>

definition handleMapClick :: "num \<Rightarrow> num \<Rightarrow> appState \<Rightarrow> appState" where
  "handleMapClick clickLat clickLng s =
     (if isNaN clickLat \<or> isNaN clickLng then s
      else if activeTool s = ToolDestination
      then s\<lparr>destination := Some \<lparr>lat = clickLat, lng = clickLng\<rparr>, activeTool := ToolNone\<rparr>
      else if activeTool s = ToolHazard
      then s\<lparr>tempHazardPoints := tempHazardPoints s @ [\<lparr>lat = clickLat, lng = clickLng\<rparr>]\<rparr>
      else s)"

text \<open>
  The arguments are the values of \<open>parseFloat(suggestion.lat)\<close> and
  \<open>parseFloat(suggestion.lon)\<close>; \<open>parseFloat\<close> gives \<open>NaN\<close> for a string that is not a
  number and an infinity for the string \<open>Infinity\<close>.
\<close>

definition handleSelectDestination :: "num \<Rightarrow> num \<Rightarrow> appState \<Rightarrow> appState" where
  "handleSelectDestination parsedLat parsedLng s =
     (if \<not> isNaN parsedLat \<and> \<not> isNaN parsedLng
      then s\<lparr>destination := Some \<lparr>lat = parsedLat, lng = parsedLng\<rparr>\<rparr>
      else s)"

subsection \<open>calculateRoute\<close>




subsection \<open>The live hazard monitor and the navigation controls\<close>



definition stopSimulation :: "appState \<Rightarrow> appState" where
  "stopSimulation s =
     s\<lparr>isSimulating := False,
       navStatus := (navStatus s)\<lparr>isNavigating := False, alert := None, rerouting := False\<rparr>\<rparr>"


definition completeNavigation :: "appState \<Rightarrow> appState" where
  "completeNavigation s =
     (let s1 = stopSimulation s
      in s1\<lparr>navStatus := (navStatus s1)\<lparr>isNavigating := False, alert := Some ''TARGET REACHED''\<rparr>\<rparr>)"

text \<open>
  One tick of the simulated playback. The timer's function closes over the route of
  the render in which \<open>startSimulation\<close> ran: it is the argument \<open>r\<close>. The index is a
  ref and is read as it is now. The random hazard check at the end of a tick is not
  modelled.
\<close>

definition simulationTick :: "routeData \<Rightarrow> appState \<Rightarrow> appState" where
  "simulationTick r s =
     (let coords = coordinates r;
          idx = simulationIndex s
      in if idx + 1 < length coords
         then (let currentPos = coords ! idx
               in s\<lparr>userLocation := currentPos,
                    pathTrail := trailAfterTick (pathTrail s) currentPos,
                    simulationIndex := idx + 1\<rparr>)
         else completeNavigation s)"




section \<open>Example data\<close>

text \<open>Concrete inputs at which the theorems below are instantiated.\<close>

definition pt :: "real \<Rightarrow> real \<Rightarrow> coordinate" where
  "pt a b = \<lparr>lat = Fin a, lng = Fin b\<rparr>"




definition straightPath :: "coordinate list" where
  "straightPath = [pt 2 0, pt 2 2, pt 2 4]"

definition mkRoute :: "coordinate list \<Rightarrow> real \<Rightarrow> routeData" where
  "mkRoute cs d =
     \<lparr>coordinates = cs, totalDistance = Fin d, totalDuration = Fin (d / 10),
      bbox = None, steps = []\<rparr>"

definition evalA :: routeEvaluation where
  "evalA = \<lparr>route = mkRoute straightPath 100, hazardScore = 1,
            detourType = ''Perpendicular Left (Tight)''\<rparr>"

definition evalB :: routeEvaluation where
  "evalB = \<lparr>route = mkRoute straightPath 50, hazardScore = 1,
            detourType = ''Perpendicular Right (Tight)''\<rparr>"

definition evalC :: routeEvaluation where
  "evalC = \<lparr>route = mkRoute straightPath 1000, hazardScore = 0,
            detourType = ''Corner Top-Left''\<rparr>"

text \<open>A network whose primary endpoint times out and whose backup answers with no routes.\<close>

definition backupOnlyNet :: network where
  "backupOnlyNet e cs =
     (case e of
        OSRM_BASE_URL \<Rightarrow> Aborted
      | OSRM_BACKUP_URL \<Rightarrow> HttpResponse 200 (Json (Some \<lparr>routes = Some []\<rparr>)))"

text \<open>A route whose geometry repeats its first point.\<close>

definition repeatedPointRoute :: routeData where
  "repeatedPointRoute = mkRoute [pt 2 0, pt 2 0, pt 2 4] 4000"








section \<open>Properties\<close>

subsection \<open>Ray casting and bounding boxes\<close>

lemma isFinite_iff: "isFinite a \<longleftrightarrow> (\<exists>r. a = Fin r)"
  by (cases a) auto
































lemma valid_pt: "isValidCoordinate (pt a b)"
  by (simp add: pt_def isValidCoordinate_def)







subsection \<open>Degenerate polygons\<close>




subsection \<open>Route intersection\<close>



subsection \<open>Hazard score\<close>



subsection \<open>The selector\<close>

lemma num_less_irrefl: "\<not> (a::num) < a"
  by (cases a) auto

lemma compare_pos_iff:
  assumes "isFinite (totalDistance (route a))" "isFinite (totalDistance (route b))"
  shows "compareEvaluations a b > Fin 0 \<longleftrightarrow>
     hazardScore b < hazardScore a \<or>
     (hazardScore a = hazardScore b \<and> totalDistance (route b) < totalDistance (route a))"
proof -
  from assms obtain da db where d: "totalDistance (route a) = Fin da" "totalDistance (route b) = Fin db"
    by (auto simp: isFinite_iff)
  show ?thesis by (auto simp: compareEvaluations_def d)
qed

lemma insertSorted_not_Nil: "insertSorted cmp x ys \<noteq> []"
  by (cases ys) auto

lemma set_insertSorted: "set (insertSorted cmp x ys) = insert x (set ys)"
  by (induction ys) auto

lemma set_arraySort: "set (arraySort cmp xs) = set xs"
  by (induction xs) (auto simp: set_insertSorted)

lemma arraySort_Nil_iff: "arraySort cmp xs = [] \<longleftrightarrow> xs = []"
  by (cases xs) (auto simp: insertSorted_not_Nil)

lemma hd_insertSorted:
  "hd (insertSorted cmp x ys) = (if ys \<noteq> [] \<and> cmp x (hd ys) > Fin 0 then hd ys else x)"
  by (cases ys) auto

lemma first_is_hd: "xs \<noteq> [] \<Longrightarrow> arraySort cmp xs ! 0 = hd (arraySort cmp xs)"
  by (simp add: hd_conv_nth arraySort_Nil_iff)


text \<open>With finite distances the first element is least in score, then distance.\<close>

lemma first_least:
  assumes "evs \<noteq> []" "\<forall>e \<in> set evs. isFinite (totalDistance (route e))"
  shows "hd (arraySort compareEvaluations evs) \<in> set evs \<and>
         (\<forall>e \<in> set evs. \<not> compareEvaluations (hd (arraySort compareEvaluations evs)) e > Fin 0)"
  using assms
proof (induction evs)
  case Nil
  then show ?case by simp
next
  case (Cons x xs)
  show ?case
  proof (cases "xs = []")
    case True
    with Cons.prems show ?thesis by (simp add: compare_pos_iff num_less_irrefl)
  next
    case False
    let ?m = "hd (arraySort compareEvaluations xs)"
    from Cons.prems have fin: "\<forall>e \<in> set xs. isFinite (totalDistance (route e))"
      and fx: "isFinite (totalDistance (route x))" by simp_all
    from Cons.IH [OF False fin] have m: "?m \<in> set xs"
      "\<forall>e \<in> set xs. \<not> compareEvaluations ?m e > Fin 0" by simp_all
    from m(1) fin have fm: "isFinite (totalDistance (route ?m))" by simp
    have ne: "arraySort compareEvaluations xs \<noteq> []" using False by (simp add: arraySort_Nil_iff)
    from fx obtain dx where dx: "totalDistance (route x) = Fin dx" by (auto simp: isFinite_iff)
    from fm obtain dm where dm: "totalDistance (route ?m) = Fin dm" by (auto simp: isFinite_iff)
    show ?thesis
    proof (cases "compareEvaluations x ?m > Fin 0")
      case True
      then have "\<not> compareEvaluations ?m x > Fin 0"
        by (auto simp: compare_pos_iff [OF fx fm] compare_pos_iff [OF fm fx] dx dm)
      with True m ne show ?thesis by (auto simp: hd_insertSorted)
    next
      case le: False
      have "\<not> compareEvaluations x e > Fin 0" if e: "e \<in> set xs" for e
      proof -
        from fin e obtain de where de: "totalDistance (route e) = Fin de" by (auto simp: isFinite_iff)
        from fin e have fe: "isFinite (totalDistance (route e))" by simp
        from m(2) e have "\<not> compareEvaluations ?m e > Fin 0" by simp
        with le show ?thesis
          by (auto simp: compare_pos_iff [OF fx fm] compare_pos_iff [OF fm fe] compare_pos_iff [OF fx fe] dx dm de)
      qed
      moreover have "\<not> compareEvaluations x x > Fin 0"
        by (simp add: compare_pos_iff [OF fx fx] dx)
      ultimately show ?thesis using le ne by (auto simp: hd_insertSorted)
    qed
  qed
qed

text \<open>
  Claim C2. Among the evaluations that were fetched (a non-empty list, distances
  finite) the selector returns the route of the first element of the sorted list; that
  element is one of the evaluations, its hazard score is least, and among those of
  least score its total distance is least: of two evaluations with equal scores the
  shorter one is preferred, with unequal scores the lower score wins whatever the
  distances. Its score and distance are the same for every list with the same
  evaluations in another order, and it is the same evaluation when no two evaluations
  agree in both score and distance. \<open>Promise.all\<close> hands the selector the results in
  the order of the candidates, so the order of completion does not enter.
\<close>

theorem selector_least_score_then_distance:
  assumes "evs \<noteq> []" and "\<forall>e \<in> set evs. isFinite (totalDistance (route e))"
  shows "selectRoute evs = route (arraySort compareEvaluations evs ! 0) \<and>
         arraySort compareEvaluations evs ! 0 \<in> set evs \<and>
         (\<forall>e \<in> set evs.
            hazardScore (arraySort compareEvaluations evs ! 0) < hazardScore e \<or>
            hazardScore (arraySort compareEvaluations evs ! 0) = hazardScore e \<and>
            totalDistance (route (arraySort compareEvaluations evs ! 0)) \<le> totalDistance (route e)) \<and>
         (\<forall>evs'. set evs' = set evs \<longrightarrow>
            hazardScore (arraySort compareEvaluations evs' ! 0) =
              hazardScore (arraySort compareEvaluations evs ! 0) \<and>
            totalDistance (route (arraySort compareEvaluations evs' ! 0)) =
              totalDistance (route (arraySort compareEvaluations evs ! 0)) \<and>
            ((\<forall>a \<in> set evs. \<forall>b \<in> set evs.
                hazardScore a = hazardScore b \<and>
                totalDistance (route a) = totalDistance (route b) \<longrightarrow> a = b) \<longrightarrow>
             arraySort compareEvaluations evs' ! 0 = arraySort compareEvaluations evs ! 0))"
proof -
  let ?best = "arraySort compareEvaluations evs ! 0"
  have least: "arraySort compareEvaluations xs ! 0 \<in> set xs \<and>
      (\<forall>e \<in> set xs.
         hazardScore (arraySort compareEvaluations xs ! 0) < hazardScore e \<or>
         hazardScore (arraySort compareEvaluations xs ! 0) = hazardScore e \<and>
         totalDistance (route (arraySort compareEvaluations xs ! 0)) \<le> totalDistance (route e))"
    if ne: "xs \<noteq> []" and fin: "\<forall>e \<in> set xs. isFinite (totalDistance (route e))" for xs
  proof -
    let ?b = "arraySort compareEvaluations xs ! 0"
    from first_least [OF ne fin] have b: "?b \<in> set xs"
      "\<forall>e \<in> set xs. \<not> compareEvaluations ?b e > Fin 0"
      by (simp_all add: first_is_hd [OF ne])
    from b(1) fin have fb: "isFinite (totalDistance (route ?b))" by simp
    have "hazardScore ?b < hazardScore e \<or>
        hazardScore ?b = hazardScore e \<and> totalDistance (route ?b) \<le> totalDistance (route e)"
      if e: "e \<in> set xs" for e
    proof -
      from fin e have fe: "isFinite (totalDistance (route e))" by simp
      from fb fe obtain db de where d: "totalDistance (route ?b) = Fin db" "totalDistance (route e) = Fin de"
        by (auto simp: isFinite_iff)
      from b(2) e have "\<not> compareEvaluations ?b e > Fin 0" by simp
      then show ?thesis by (auto simp: compare_pos_iff [OF fb fe] d)
    qed
    with b(1) show ?thesis by blast
  qed
  note here = least [OF assms]
  have same: "hazardScore (arraySort compareEvaluations evs' ! 0) = hazardScore ?best \<and>
      totalDistance (route (arraySort compareEvaluations evs' ! 0)) = totalDistance (route ?best) \<and>
      ((\<forall>a \<in> set evs. \<forall>b \<in> set evs.
          hazardScore a = hazardScore b \<and>
          totalDistance (route a) = totalDistance (route b) \<longrightarrow> a = b) \<longrightarrow>
       arraySort compareEvaluations evs' ! 0 = ?best)"
    if eq: "set evs' = set evs" for evs'
  proof -
    let ?b' = "arraySort compareEvaluations evs' ! 0"
    from eq assms(1) have ne': "evs' \<noteq> []" by auto
    from eq assms(2) have fin': "\<forall>e \<in> set evs'. isFinite (totalDistance (route e))" by simp
    note there = least [OF ne' fin']
    from here there eq have in1: "?best \<in> set evs'" and in2: "?b' \<in> set evs" by simp_all
    from assms(2) here have "isFinite (totalDistance (route ?best))" by simp
    moreover from assms(2) in2 have "isFinite (totalDistance (route ?b'))" by simp
    ultimately obtain d d' where d: "totalDistance (route ?best) = Fin d" "totalDistance (route ?b') = Fin d'"
      by (auto simp: isFinite_iff)
    from here in2 have "hazardScore ?best < hazardScore ?b' \<or>
        hazardScore ?best = hazardScore ?b' \<and> d \<le> d'" by (auto simp: d)
    moreover from there in1 have "hazardScore ?b' < hazardScore ?best \<or>
        hazardScore ?b' = hazardScore ?best \<and> d' \<le> d" by (auto simp: d)
    ultimately have keys: "hazardScore ?b' = hazardScore ?best"
      "totalDistance (route ?b') = totalDistance (route ?best)"
      by (auto simp: d)
    moreover from here have "?best \<in> set evs" by simp
    ultimately show ?thesis using in2 by blast
  qed
  have "selectRoute evs = route ?best" by (simp add: selectRoute_def)
  with here same show ?thesis by blast
qed

lemma scoreA: "hazardScore evalA = 1" by (simp add: evalA_def)
lemma scoreB: "hazardScore evalB = 1" by (simp add: evalB_def)
lemma scoreC: "hazardScore evalC = 0" by (simp add: evalC_def)
lemma distA: "totalDistance (route evalA) = Fin 100" by (simp add: evalA_def mkRoute_def)
lemma distB: "totalDistance (route evalB) = Fin 50" by (simp add: evalB_def mkRoute_def)
lemma distC: "totalDistance (route evalC) = Fin 1000" by (simp add: evalC_def mkRoute_def)

lemma cmpAB: "compareEvaluations evalA evalB = Fin 50" "compareEvaluations evalB evalA = Fin (- 50)"
  by (simp_all add: compareEvaluations_def scoreA scoreB distA distB)

lemma cmpC: "compareEvaluations evalA evalC = Fin 1" "compareEvaluations evalB evalC = Fin 1"
  "compareEvaluations evalC evalA = Fin (- 1)" "compareEvaluations evalC evalB = Fin (- 1)"
  by (simp_all add: compareEvaluations_def scoreA scoreB scoreC)

lemma selAB: "selectRoute [evalA, evalB] = route evalB" "selectRoute [evalB, evalA] = route evalB"
  by (simp_all add: selectRoute_def cmpAB)

lemma selCBA: "selectRoute [evalC, evalB, evalA] = route evalC"
  by (simp add: selectRoute_def cmpAB cmpC)

theorem selector_least_score_then_distance_witness:
  "[evalA, evalB, evalC] \<noteq> [] \<and>
   isFinite (totalDistance (route evalA)) \<and> isFinite (totalDistance (route evalB)) \<and>
   isFinite (totalDistance (route evalC)) \<and>
   selectRoute [evalA, evalB] = route evalB \<and>
   selectRoute [evalB, evalA] = route evalB \<and>
   selectRoute [evalA, evalB, evalC] = route evalC \<and>
   selectRoute [evalC, evalB, evalA] = route evalC"
proof -
  define best where "best = arraySort compareEvaluations [evalA, evalB, evalC] ! 0"
  have fin: "\<forall>e \<in> set [evalA, evalB, evalC]. isFinite (totalDistance (route e))"
    by (simp add: distA distB distC)
  have ne: "[evalA, evalB, evalC] \<noteq> []" by simp
  note sel = selector_least_score_then_distance [OF ne fin, folded best_def]
  from sel have route: "selectRoute [evalA, evalB, evalC] = route best" by (rule conjunct1)
  from sel have mem: "best \<in> set [evalA, evalB, evalC]" by (rule conjunct1 [OF conjunct2])
  from sel have "\<forall>e \<in> set [evalA, evalB, evalC].
      hazardScore best < hazardScore e \<or>
      hazardScore best = hazardScore e \<and> totalDistance (route best) \<le> totalDistance (route e)"
    by (rule conjunct1 [OF conjunct2 [OF conjunct2]])
  then have "hazardScore best = 0" by (simp add: scoreC)
  with mem have "best = evalC" by (auto simp: scoreA scoreB)
  with route have "selectRoute [evalA, evalB, evalC] = route evalC" by simp
  with selAB selCBA fin show ?thesis by simp
qed


subsection \<open>The route provider client\<close>

lemma performFetch_fails: "endpointFails r \<longleftrightarrow> (\<exists>e. performFetch r = Inl e)"
  by (cases r) (auto split: body.splits)

text \<open>
  Claim C6. \<open>fetchOSRMRoute\<close>: with fewer than two valid (finite, not \<open>NaN\<close>)
  coordinates it returns \<open>null\<close> and issues no request. Otherwise it asks the primary
  endpoint; when that fails (timeout, network error, non-success status, malformed
  body) it asks the backup endpoint once, with the same coordinates, and returns
  \<open>null\<close> when the backup fails too. It never raises.
\<close>

theorem fetchOSRMRoute_fallback:
  fixes net :: network
  defines "valid \<equiv> \<lambda>coords. filter isValidCoordinate coords"
  shows "(length (valid coords) < 2 \<longrightarrow> fetchOSRMRoute net coords = (Inr None, [])) \<and>
         (2 \<le> length (valid coords) \<and> \<not> endpointFails (net OSRM_BASE_URL (valid coords)) \<longrightarrow>
            fetchOSRMRoute net coords =
              (performFetch (net OSRM_BASE_URL (valid coords)), [(OSRM_BASE_URL, valid coords)])) \<and>
         (2 \<le> length (valid coords) \<and> endpointFails (net OSRM_BASE_URL (valid coords)) \<longrightarrow>
            snd (fetchOSRMRoute net coords) =
              [(OSRM_BASE_URL, valid coords), (OSRM_BACKUP_URL, valid coords)] \<and>
            fst (fetchOSRMRoute net coords) =
              (if endpointFails (net OSRM_BACKUP_URL (valid coords)) then Inr None
               else performFetch (net OSRM_BACKUP_URL (valid coords)))) \<and>
         (\<forall>e. fst (fetchOSRMRoute net coords) \<noteq> Inl e)"
  unfolding valid_def
  by (auto simp: fetchOSRMRoute_def Let_def performFetch_fails split: sum.splits)

theorem fetchOSRMRoute_fallback_witness:
  "2 \<le> length (filter isValidCoordinate [pt 2 0, \<lparr>lat = NaN, lng = Fin 1\<rparr>, pt 2 4]) \<and>
   endpointFails (backupOnlyNet OSRM_BASE_URL [pt 2 0, pt 2 4]) \<and>
   \<not> endpointFails (backupOnlyNet OSRM_BACKUP_URL [pt 2 0, pt 2 4]) \<and>
   fetchOSRMRoute backupOnlyNet [pt 2 0, \<lparr>lat = NaN, lng = Fin 1\<rparr>, pt 2 4] =
     (Inr (Some \<lparr>routes = Some []\<rparr>),
      [(OSRM_BASE_URL, [pt 2 0, pt 2 4]), (OSRM_BACKUP_URL, [pt 2 0, pt 2 4])]) \<and>
   length (filter isValidCoordinate [pt 2 0, \<lparr>lat = PosInf, lng = Fin 1\<rparr>]) < 2 \<and>
   fetchOSRMRoute backupOnlyNet [pt 2 0, \<lparr>lat = PosInf, lng = Fin 1\<rparr>] = (Inr None, [])"
proof -
  have v: "filter isValidCoordinate [pt 2 0, \<lparr>lat = NaN, lng = Fin 1\<rparr>, pt 2 4] = [pt 2 0, pt 2 4]"
    by (simp add: valid_pt) (simp add: isValidCoordinate_def)
  have w: "filter isValidCoordinate [pt 2 0, \<lparr>lat = PosInf, lng = Fin 1\<rparr>] = [pt 2 0]"
    by (simp add: valid_pt) (simp add: isValidCoordinate_def)
  have f: "endpointFails (backupOnlyNet OSRM_BASE_URL [pt 2 0, pt 2 4])"
    "\<not> endpointFails (backupOnlyNet OSRM_BACKUP_URL [pt 2 0, pt 2 4])"
    by (simp_all add: backupOnlyNet_def response_ok_def)
  note t = fetchOSRMRoute_fallback
    [of "[pt 2 0, \<lparr>lat = NaN, lng = Fin 1\<rparr>, pt 2 4]" backupOnlyNet, unfolded v]
  from t f
  have "snd (fetchOSRMRoute backupOnlyNet [pt 2 0, \<lparr>lat = NaN, lng = Fin 1\<rparr>, pt 2 4]) =
      [(OSRM_BASE_URL, [pt 2 0, pt 2 4]), (OSRM_BACKUP_URL, [pt 2 0, pt 2 4])]"
    by simp
  moreover from t f
  have "fst (fetchOSRMRoute backupOnlyNet [pt 2 0, \<lparr>lat = NaN, lng = Fin 1\<rparr>, pt 2 4]) =
      performFetch (backupOnlyNet OSRM_BACKUP_URL [pt 2 0, pt 2 4])"
    by simp
  ultimately have 1: "fetchOSRMRoute backupOnlyNet [pt 2 0, \<lparr>lat = NaN, lng = Fin 1\<rparr>, pt 2 4] =
      (Inr (Some \<lparr>routes = Some []\<rparr>),
       [(OSRM_BASE_URL, [pt 2 0, pt 2 4]), (OSRM_BACKUP_URL, [pt 2 0, pt 2 4])])"
    by (simp add: prod_eq_iff backupOnlyNet_def response_ok_def)
  from fetchOSRMRoute_fallback
    [of "[pt 2 0, \<lparr>lat = PosInf, lng = Fin 1\<rparr>]" backupOnlyNet, unfolded w]
  have 2: "fetchOSRMRoute backupOnlyNet [pt 2 0, \<lparr>lat = PosInf, lng = Fin 1\<rparr>] = (Inr None, [])"
    by simp
  have "2 \<le> length (filter isValidCoordinate [pt 2 0, \<lparr>lat = NaN, lng = Fin 1\<rparr>, pt 2 4])"
    "length (filter isValidCoordinate [pt 2 0, \<lparr>lat = PosInf, lng = Fin 1\<rparr>]) < 2"
    unfolding v w by simp_all
  with 1 2 f show ?thesis by blast
qed

subsection \<open>The location smoother\<close>



subsection \<open>The breadcrumb trail\<close>

lemma haversine_same:
  "haversineDistance \<lparr>lat = Fin a, lng = Fin b\<rparr> \<lparr>lat = Fin a, lng = Fin b\<rparr> = Fin 0"
  by (simp add: haversineDistance_def Math_PI_def R_def)

lemma length_slice_last: "length (slice_last n xs) \<le> n"
  by (simp add: slice_last_def)

lemma length_trailAfterTick: "length (trailAfterTick prev p) \<le> 50"
  using length_slice_last [of 49 prev] by (simp add: trailAfterTick_def)

lemma length_trailAfterFix: "length prev \<le> 50 \<Longrightarrow> length (trailAfterFix prev p) \<le> 50"
  using length_slice_last [of 49 prev] by (simp add: trailAfterFix_def)

text \<open>
  Claim C8 as stated fails for the simulated playback: a tick appends the route point
  it consumes without a distance test. With a route that repeats a point, two ticks
  from the initial state leave a trail of two equal points, 0 m apart.
\<close>

theorem simulated_trail_repeats_point:
  "pathTrail (simulationTick repeatedPointRoute (simulationTick repeatedPointRoute initialState)) =
     [pt 2 0, pt 2 0] \<and>
   haversineDistance (pt 2 0) (pt 2 0) = Fin 0 \<and>
   \<not> haversineDistance (pt 2 0) (pt 2 0) \<ge> Fin 5"
  by (simp add: simulationTick_def Let_def repeatedPointRoute_def mkRoute_def initialState_def
      trailAfterTick_def slice_last_def pt_def haversine_same)

text \<open>
  Claim C8, amended. A trail of at most 50 points holds at most 50 points after a
  position fix and after a tick of the simulated playback (it starts empty, and nothing
  else writes it). A position fix either leaves the trail as it is or appends the new
  smoothed position to the last 49 points, and it appends only when the trail is
  empty or the new position is more than 5 m from the last retained point. A tick of
  the simulated playback that consumes a route point appends that point to the last
  49 points.
\<close>

theorem breadcrumb_trail_bounded:
  assumes "length (pathTrail s) \<le> 50"
  shows "pathTrail initialState = [] \<and>
         length (pathTrail (handleSuccess rawLat rawLng s)) \<le> 50 \<and>
         length (pathTrail (simulationTick r s)) \<le> 50 \<and>
         (pathTrail (handleSuccess rawLat rawLng s) = pathTrail s \<or>
            pathTrail (handleSuccess rawLat rawLng s) =
              slice_last 49 (pathTrail s) @ [userLocation (handleSuccess rawLat rawLng s)] \<and>
            (pathTrail s = [] \<or>
             haversineDistance (last (pathTrail s)) (userLocation (handleSuccess rawLat rawLng s))
               > Fin 5)) \<and>
         (simulationIndex s + 1 < length (coordinates r) \<longrightarrow>
            pathTrail (simulationTick r s) =
              slice_last 49 (pathTrail s) @ [coordinates r ! simulationIndex s])"
proof -
  have 1: "length (pathTrail (handleSuccess rawLat rawLng s)) \<le> 50"
    using assms length_trailAfterFix
    by (auto simp: handleSuccess_def Let_def split: prod.splits)
  have 2: "length (pathTrail (simulationTick r s)) \<le> 50"
    using assms length_trailAfterTick
    by (auto simp: simulationTick_def Let_def completeNavigation_def stopSimulation_def)
  have 3: "pathTrail (handleSuccess rawLat rawLng s) = pathTrail s \<or>
            pathTrail (handleSuccess rawLat rawLng s) =
              slice_last 49 (pathTrail s) @ [userLocation (handleSuccess rawLat rawLng s)] \<and>
            (pathTrail s = [] \<or>
             haversineDistance (last (pathTrail s)) (userLocation (handleSuccess rawLat rawLng s))
               > Fin 5)"
    by (auto simp: handleSuccess_def Let_def trailAfterFix_def split: prod.splits)
  have 4: "simulationIndex s + 1 < length (coordinates r) \<longrightarrow>
            pathTrail (simulationTick r s) =
              slice_last 49 (pathTrail s) @ [coordinates r ! simulationIndex s]"
    by (simp add: simulationTick_def Let_def trailAfterTick_def)
  have 0: "pathTrail initialState = []" by (simp add: initialState_def)
  from 0 1 2 3 4 show ?thesis by blast
qed

theorem breadcrumb_trail_bounded_witness:
  "length (pathTrail initialState) \<le> 50 \<and>
   pathTrail (handleSuccess (Fin 2) (Fin 0) initialState) = [pt 2 0] \<and>
   length (pathTrail (handleSuccess (Fin 2) (Fin 0) initialState)) \<le> 50 \<and>
   length (pathTrail (simulationTick repeatedPointRoute initialState)) \<le> 50"
proof -
  have h: "length (pathTrail initialState) \<le> 50" by (simp add: initialState_def)
  have "pathTrail (handleSuccess (Fin 2) (Fin 0) initialState) = [pt 2 0]"
    by (simp add: handleSuccess_def initialState_def smooth_def newLocationSmoother_def
        trailAfterFix_def slice_last_def pt_def Let_def)
  with breadcrumb_trail_bounded [OF h, of "Fin 2" "Fin 0" repeatedPointRoute] h
  show ?thesis by simp
qed

subsection \<open>Route planning\<close>


































subsection \<open>The reroute guard\<close>













subsection \<open>Coordinates at the boundaries\<close>

text \<open>
  Claim C7 fails on the code: the three boundaries test \<open>isNaN\<close> only. A map click, a
  selected search result or a position fix with an infinite latitude is accepted and
  stored as destination, hazard vertex, user location and trail point, although it
  is not a valid coordinate. The fix after an infinite one then yields \<open>NaN\<close> from the
  smoother (\<open>Infinity + 0.3 * (16 - Infinity)\<close>), which becomes the user location.
  A \<open>NaN\<close> input is rejected.
\<close>

theorem infinite_coordinate_passes_boundaries:
  "destination (handleMapClick PosInf (Fin 80.4365) (initialState\<lparr>activeTool := ToolDestination\<rparr>)) =
     Some \<lparr>lat = PosInf, lng = Fin 80.4365\<rparr> \<and>
   tempHazardPoints (handleMapClick PosInf (Fin 80.4365) (initialState\<lparr>activeTool := ToolHazard\<rparr>)) =
     [\<lparr>lat = PosInf, lng = Fin 80.4365\<rparr>] \<and>
   destination (handleSelectDestination PosInf (Fin 80.4365) initialState) =
     Some \<lparr>lat = PosInf, lng = Fin 80.4365\<rparr> \<and>
   userLocation (handleSuccess PosInf (Fin 80.4365) initialState) =
     \<lparr>lat = PosInf, lng = Fin 80.4365\<rparr> \<and>
   pathTrail (handleSuccess PosInf (Fin 80.4365) initialState) =
     [\<lparr>lat = PosInf, lng = Fin 80.4365\<rparr>] \<and>
   \<not> isValidCoordinate \<lparr>lat = PosInf, lng = Fin 80.4365\<rparr> \<and>
   lat (userLocation (handleSuccess (Fin 16) (Fin 80.4365)
          (handleSuccess PosInf (Fin 80.4365) initialState))) = NaN \<and>
   handleMapClick NaN (Fin 80.4365) (initialState\<lparr>activeTool := ToolDestination\<rparr>) =
     initialState\<lparr>activeTool := ToolDestination\<rparr> \<and>
   handleSelectDestination NaN (Fin 80.4365) initialState = initialState \<and>
   handleSuccess NaN (Fin 80.4365) initialState = initialState"
  by (simp add: handleMapClick_def handleSelectDestination_def handleSuccess_def initialState_def
      smooth_def newLocationSmoother_def trailAfterFix_def slice_last_def isValidCoordinate_def Let_def)

end
